theory Spec2Isabelle
  imports Main "HOL-Library.Word"
begin

section \<open>Strings and bytes\<close>

text \<open>
  A Go \<^verbatim>\<open>string\<close> is a sequence of bytes and \<^verbatim>\<open>len\<close> counts bytes; it is
  modelled as \<^typ>\<open>string\<close>, a list of 8-bit characters. A \<^verbatim>\<open>[]byte\<close> converted
  with \<^verbatim>\<open>string(b)\<close> is the same list.
\<close>

definition byte :: "char \<Rightarrow> nat" where
  "byte c = of_char c"

definition isUpper :: "char \<Rightarrow> bool" where
  "isUpper c = (65 \<le> byte c \<and> byte c \<le> 90)"

definition isLower :: "char \<Rightarrow> bool" where
  "isLower c = (97 \<le> byte c \<and> byte c \<le> 122)"

definition isDigit :: "char \<Rightarrow> bool" where
  "isDigit c = (48 \<le> byte c \<and> byte c \<le> 57)"

definition lowerByte :: "char \<Rightarrow> char" where
  "lowerByte c = (if isUpper c then char_of (byte c + 32) else c)"

definition upperByte :: "char \<Rightarrow> char" where
  "upperByte c = (if isLower c then char_of (byte c - 32) else c)"

text \<open>
  \<^verbatim>\<open>strings.ToLower\<close>, on the ASCII letters. (Go also maps the upper-case letters
  of Unicode that a string encodes in UTF-8; bytes above 127 are left alone here.)
\<close>

definition ToLower :: "string \<Rightarrow> string" where
  "ToLower s = map lowerByte s"

definition HasPrefix :: "string \<Rightarrow> string \<Rightarrow> bool" where
  "HasPrefix s p = (length p \<le> length s \<and> take (length p) s = p)"

definition HasSuffix :: "string \<Rightarrow> string \<Rightarrow> bool" where
  "HasSuffix s x = (length x \<le> length s \<and> drop (length s - length x) s = x)"

section \<open>net/textproto: canonical header keys\<close>

text \<open>
  \<^verbatim>\<open>validHeaderFieldByte\<close>: the token characters of RFC 7230, that is the letters,
  the digits and \<^verbatim>\<open>! # $ % & ' * + - . ^ _ ` | ~\<close>.
\<close>

definition validHeaderFieldByte :: "char \<Rightarrow> bool" where
  "validHeaderFieldByte c =
     (isUpper c \<or> isLower c \<or> isDigit c \<or>
      byte c \<in> {33, 35, 36, 37, 38, 39, 42, 43, 45, 46, 94, 95, 96, 124, 126})"

text \<open>
  The loop of \<^verbatim>\<open>canonicalMIMEHeaderKey\<close>: the first letter and every letter after
  a hyphen in upper case, every other letter in lower case. The flag is the loop's
  \<^verbatim>\<open>upper\<close>.
\<close>

fun canonicalLoop :: "bool \<Rightarrow> string \<Rightarrow> string" where
  "canonicalLoop upper [] = []"
| "canonicalLoop upper (c # cs) =
     (let c' = (if upper \<and> isLower c then upperByte c
                else if \<not> upper \<and> isUpper c then lowerByte c
                else c)
      in c' # canonicalLoop (c' = CHR ''-'') cs)"

text \<open>
  \<^verbatim>\<open>textproto.CanonicalMIMEHeaderKey\<close>: a key with a byte that is not valid in a
  header field name is returned unchanged.
\<close>

definition CanonicalMIMEHeaderKey :: "string \<Rightarrow> string" where
  "CanonicalMIMEHeaderKey s =
     (if list_all validHeaderFieldByte s then canonicalLoop True s else s)"

section \<open>strconv.ParseInt, base 10, 64 bits\<close>

datatype NumError = ErrSyntax | ErrRange

text \<open>
  The digit loop of \<^verbatim>\<open>ParseUint(s, 10, 64)\<close>, with \<^verbatim>\<open>n\<close> the value read so far.
  It stops with \<^verbatim>\<open>ErrRange\<close> as soon as the value leaves 64 bits, before it looks
  at the bytes that follow.
\<close>

fun parseUintLoop :: "string \<Rightarrow> nat \<Rightarrow> NumError + nat" where
  "parseUintLoop [] n = Inr n"
| "parseUintLoop (c # cs) n =
     (if \<not> isDigit c then Inl ErrSyntax
      else if n \<ge> (2 ^ 64 - 1) div 10 + 1 then Inl ErrRange
      else if n * 10 + (byte c - 48) > 2 ^ 64 - 1 then Inl ErrRange
      else parseUintLoop cs (n * 10 + (byte c - 48)))"

definition ParseUint :: "string \<Rightarrow> NumError + nat" where
  "ParseUint s = (if s = [] then Inl ErrSyntax else parseUintLoop s 0)"

text \<open>
  \<^verbatim>\<open>strconv.ParseInt(s, 10, 64)\<close>. An \<^verbatim>\<open>int64\<close> is a \<^typ>\<open>64 word\<close>, read
  with \<^const>\<open>sint\<close>.
\<close>

definition ParseInt :: "string \<Rightarrow> NumError + 64 word" where
  "ParseInt s0 =
     (if s0 = [] then Inl ErrSyntax
      else
        let neg = (hd s0 = CHR ''-'');
            s = (if hd s0 = CHR ''+'' \<or> hd s0 = CHR ''-'' then tl s0 else s0)
        in case ParseUint s of
             Inl ErrSyntax \<Rightarrow> Inl ErrSyntax
           | Inl ErrRange \<Rightarrow> Inl ErrRange
           | Inr un \<Rightarrow>
               if \<not> neg \<and> un \<ge> 2 ^ 63 then Inl ErrRange
               else if neg \<and> un > 2 ^ 63 then Inl ErrRange
               else Inr (if neg then - word_of_nat un else word_of_nat un))"

section \<open>time\<close>

text \<open>
  A \<^verbatim>\<open>time.Duration\<close> is an \<^verbatim>\<open>int64\<close> count of nanoseconds, and its product
  wraps around. An instant is a count of nanoseconds on an unbounded clock.
\<close>

type_synonym Duration = "64 word"
type_synonym Time = int

definition Nanosecond :: Duration where "Nanosecond = 1"
definition Microsecond :: Duration where "Microsecond = 1000 * Nanosecond"
definition Millisecond :: Duration where "Millisecond = 1000 * Microsecond"
definition Second :: Duration where "Second = 1000 * Millisecond"
definition Minute :: Duration where "Minute = 60 * Second"
definition Hour :: Duration where "Hour = 60 * Minute"

definition Time_Add :: "Time \<Rightarrow> Duration \<Rightarrow> Time" where
  "Time_Add t d = t + sint d"

section \<open>The timeout decoder\<close>

datatype timeoutError =
    TooShort string
  | UnitNotRecognized string
  | ParseError NumError

fun timeoutUnitToDuration :: "char \<Rightarrow> Duration \<times> bool" where
  "timeoutUnitToDuration u =
     (if u = CHR ''H'' then (Hour, True)
      else if u = CHR ''M'' then (Minute, True)
      else if u = CHR ''S'' then (Second, True)
      else if u = CHR ''m'' then (Millisecond, True)
      else if u = CHR ''u'' then (Microsecond, True)
      else if u = CHR ''n'' then (Nanosecond, True)
      else (0, False))"

definition timeoutDecode :: "string \<Rightarrow> timeoutError + Duration" where
  "timeoutDecode s =
     (let size = length s in
      if size < 2 then Inl (TooShort s)
      else
        case timeoutUnitToDuration (s ! (size - 1)) of
          (d, ok) \<Rightarrow>
            if \<not> ok then Inl (UnitNotRecognized s)
            else
              case ParseInt (take (size - 1) s) of
                Inl err \<Rightarrow> Inl (ParseError err)
              | Inr t \<Rightarrow> Inr (d * t))"

section \<open>context and the server metadata\<close>

text \<open>
  The metadata bag \<^verbatim>\<open>metadata.MD\<close> is a Go map from key to the list of its values.
\<close>

type_synonym MD = "string \<rightharpoonup> string list"

record ServerMetadata =
  HeaderMD :: MD
  TrailerMD :: MD

text \<open>
  What \<^verbatim>\<open>opentracing\<close> hands over: the span context read from the carrier, and
  the span started from it under the request's path.
\<close>

datatype SpanContext = SpanContext string

datatype Span = Span string SpanContext

text \<open>
  A \<^verbatim>\<open>context.Context\<close> is a chain of immutable nodes. The keys are the unexported
  key types of the packages that store a value: \<^verbatim>\<open>serverMetadataKey{}\<close> of this
  package, the metadata keys of \<^verbatim>\<open>grpc/metadata\<close>, the span key of
  \<^verbatim>\<open>opentracing\<close>, and any other key of a caller.
\<close>

datatype ctxKey = serverMetadataKey | mdOutgoingKey | mdIncomingKey | activeSpanKey | otherKey string

datatype ctxValue =
    ServerMetadataValue ServerMetadata
  | MDValue MD
  | SpanValue Span
  | otherValue string

datatype Context =
    Background
  | valueCtx Context ctxKey ctxValue
  | cancelCtx Context
  | timerCtx Context Time

fun Value :: "Context \<Rightarrow> ctxKey \<Rightarrow> ctxValue option" where
  "Value Background key = None"
| "Value (valueCtx parent k v) key = (if k = key then Some v else Value parent key)"
| "Value (cancelCtx parent) key = Value parent key"
| "Value (timerCtx parent d) key = Value parent key"

fun Deadline :: "Context \<Rightarrow> Time option" where
  "Deadline Background = None"
| "Deadline (valueCtx parent k v) = Deadline parent"
| "Deadline (cancelCtx parent) = Deadline parent"
| "Deadline (timerCtx parent d) = Some d"

definition WithValue :: "Context \<Rightarrow> ctxKey \<Rightarrow> ctxValue \<Rightarrow> Context" where
  "WithValue parent key val = valueCtx parent key val"

text \<open>
  \<^verbatim>\<open>context.WithDeadline\<close>: a parent whose deadline is already sooner keeps it.
\<close>

definition WithDeadline :: "Context \<Rightarrow> Time \<Rightarrow> Context" where
  "WithDeadline parent d =
     (case Deadline parent of
        Some cur \<Rightarrow> if cur < d then cancelCtx parent else timerCtx parent d
      | None \<Rightarrow> timerCtx parent d)"

text \<open>\<^verbatim>\<open>context.WithTimeout\<close>, with the clock's reading \<open>now\<close> passed in.\<close>

definition WithTimeout :: "Time \<Rightarrow> Context \<Rightarrow> Duration \<Rightarrow> Context" where
  "WithTimeout now parent timeout = WithDeadline parent (Time_Add now timeout)"

definition NewServerMetadataContext :: "Context \<Rightarrow> ServerMetadata \<Rightarrow> Context" where
  "NewServerMetadataContext ctx md = WithValue ctx serverMetadataKey (ServerMetadataValue md)"

text \<open>
  The type assertion \<^verbatim>\<open>.(ServerMetadata)\<close> gives the zero value and \<^verbatim>\<open>false\<close>
  for a missing value and for a value of another type.
\<close>

definition zeroServerMetadata :: ServerMetadata where
  "zeroServerMetadata = \<lparr>HeaderMD = Map.empty, TrailerMD = Map.empty\<rparr>"

definition ServerMetadataFromContext :: "Context \<Rightarrow> ServerMetadata \<times> bool" where
  "ServerMetadataFromContext ctx =
     (case Value ctx serverMetadataKey of
        Some (ServerMetadataValue md) \<Rightarrow> (md, True)
      | _ \<Rightarrow> (zeroServerMetadata, False))"

text \<open>Whether some node of the chain was made by \<^const>\<open>NewServerMetadataContext\<close>.\<close>

fun attachedServerMetadata :: "Context \<Rightarrow> bool" where
  "attachedServerMetadata Background = False"
| "attachedServerMetadata (valueCtx parent k v) =
     ((k = serverMetadataKey \<and> (case v of ServerMetadataValue md \<Rightarrow> True | _ \<Rightarrow> False))
      \<or> attachedServerMetadata parent)"
| "attachedServerMetadata (cancelCtx parent) = attachedServerMetadata parent"
| "attachedServerMetadata (timerCtx parent d) = attachedServerMetadata parent"

section \<open>encoding/base64\<close>

text \<open>The first index of a byte in a string (\<^verbatim>\<open>strings.IndexByte\<close>), if there is one.\<close>

fun IndexByte :: "string \<Rightarrow> char \<Rightarrow> nat option" where
  "IndexByte [] c = None"
| "IndexByte (x # xs) c = (if x = c then Some 0 else map_option Suc (IndexByte xs c))"

definition encodeStd :: string where
  "encodeStd = ''ABCDEFGHIJKLMNOPQRSTUVWXYZabcdefghijklmnopqrstuvwxyz0123456789+/''"

definition encodeChar :: "nat \<Rightarrow> char" where
  "encodeChar n = encodeStd ! (n mod 64)"

text \<open>The decoder's table: \<open>None\<close> stands for the entry \<^verbatim>\<open>0xFF\<close> of a byte outside the alphabet.\<close>

definition decodeMap :: "char \<Rightarrow> nat option" where
  "decodeMap c = IndexByte encodeStd c"

datatype base64Error = CorruptInputError

text \<open>
  \<^verbatim>\<open>Encoding.EncodeToString\<close>: three bytes give four characters; one or two
  remaining bytes give two or three, and the padded encoding fills up with \<^verbatim>\<open>=\<close>.
  The flag tells \<^verbatim>\<open>StdEncoding\<close> (padded) from \<^verbatim>\<open>RawStdEncoding\<close>.
\<close>

fun EncodeToString :: "bool \<Rightarrow> string \<Rightarrow> string" where
  "EncodeToString padded [] = []"
| "EncodeToString padded [a] =
     (let val = byte a * 65536
      in [encodeChar (val div 262144), encodeChar (val div 4096)] @
         (if padded then ''=='' else []))"
| "EncodeToString padded [a, b] =
     (let val = byte a * 65536 + byte b * 256
      in [encodeChar (val div 262144), encodeChar (val div 4096), encodeChar (val div 64)] @
         (if padded then ''='' else []))"
| "EncodeToString padded (a # b # c # src) =
     (let val = byte a * 65536 + byte b * 256 + byte c
      in [encodeChar (val div 262144), encodeChar (val div 4096), encodeChar (val div 64),
          encodeChar val] @ EncodeToString padded src)"

text \<open>The bytes of a quantum of four, three or two six-bit values.\<close>

definition quantum :: "nat \<Rightarrow> nat \<Rightarrow> nat \<Rightarrow> nat \<Rightarrow> nat" where
  "quantum d0 d1 d2 d3 = d0 * 262144 + d1 * 4096 + d2 * 64 + d3"

definition bytes3 :: "nat \<Rightarrow> string" where
  "bytes3 val = [char_of (val div 65536), char_of (val div 256), char_of val]"

text \<open>
  The decoder on an input without line breaks, quantum by quantum as
  \<^verbatim>\<open>decodeQuantum\<close> reads it: the input may end after a full quantum; the raw
  decoder accepts a last quantum of two or three characters, the padded one wants it
  filled up with \<^verbatim>\<open>=\<close> and nothing after; a \<^verbatim>\<open>=\<close> is never valid for the raw decoder.
  The decoder is not strict: the unused low bits of a short quantum are not checked.
\<close>

fun decodeQuanta :: "bool \<Rightarrow> string \<Rightarrow> base64Error + string" where
  "decodeQuanta padded [] = Inr []"
| "decodeQuanta padded [a] = Inl CorruptInputError"
| "decodeQuanta padded [a, b] =
     (case (decodeMap a, decodeMap b) of
        (Some d0, Some d1) \<Rightarrow>
          if padded then Inl CorruptInputError
          else Inr (take 1 (bytes3 (quantum d0 d1 0 0)))
      | _ \<Rightarrow> Inl CorruptInputError)"
| "decodeQuanta padded [a, b, c] =
     (case (decodeMap a, decodeMap b, decodeMap c) of
        (Some d0, Some d1, Some d2) \<Rightarrow>
          if padded then Inl CorruptInputError
          else Inr (take 2 (bytes3 (quantum d0 d1 d2 0)))
      | _ \<Rightarrow> Inl CorruptInputError)"
| "decodeQuanta padded (a # b # c # d # src) =
     (case (decodeMap a, decodeMap b) of
        (Some d0, Some d1) \<Rightarrow>
          (case decodeMap c of
             Some d2 \<Rightarrow>
               (case decodeMap d of
                  Some d3 \<Rightarrow>
                    (case decodeQuanta padded src of
                       Inl err \<Rightarrow> Inl err
                     | Inr dst \<Rightarrow> Inr (bytes3 (quantum d0 d1 d2 d3) @ dst))
                | None \<Rightarrow>
                    if padded \<and> d = CHR ''='' \<and> src = []
                    then Inr (take 2 (bytes3 (quantum d0 d1 d2 0)))
                    else Inl CorruptInputError)
           | None \<Rightarrow>
               if padded \<and> c = CHR ''='' \<and> d = CHR ''='' \<and> src = []
               then Inr (take 1 (bytes3 (quantum d0 d1 0 0)))
               else Inl CorruptInputError)
      | _ \<Rightarrow> Inl CorruptInputError)"

text \<open>\<^verbatim>\<open>Encoding.DecodeString\<close>: carriage returns and line feeds are skipped wherever they stand.\<close>

definition DecodeString :: "bool \<Rightarrow> string \<Rightarrow> base64Error + string" where
  "DecodeString padded s =
     decodeQuanta padded (filter (\<lambda>c. c \<noteq> CHR 0x0A \<and> c \<noteq> CHR 0x0D) s)"

definition decodeBinHeader :: "string \<Rightarrow> base64Error + string" where
  "decodeBinHeader v =
     (if length v mod 4 = 0 then DecodeString True v
      else DecodeString False v)"

section \<open>net.SplitHostPort\<close>

datatype AddrError =
    missingPort
  | tooManyColons
  | missingRBracket
  | unexpectedLBracket
  | unexpectedRBracket

definition LastIndexByte :: "string \<Rightarrow> char \<Rightarrow> nat option" where
  "LastIndexByte s c = map_option (\<lambda>i. length s - 1 - i) (IndexByte (rev s) c)"

definition SplitHostPort :: "string \<Rightarrow> AddrError + (string \<times> string)" where
  "SplitHostPort hostport =
     (case LastIndexByte hostport CHR '':'' of
        None \<Rightarrow> Inl missingPort
      | Some i \<Rightarrow>
          if hd hostport = CHR ''['' then
            (case IndexByte hostport CHR '']'' of
               None \<Rightarrow> Inl missingRBracket
             | Some e \<Rightarrow>
                 if e + 1 = length hostport then Inl missingPort
                 else if e + 1 = i then
                   (if IndexByte (drop 1 hostport) CHR ''['' \<noteq> None then Inl unexpectedLBracket
                    else if IndexByte (drop (e + 1) hostport) CHR '']'' \<noteq> None
                      then Inl unexpectedRBracket
                    else Inr (take (e - 1) (drop 1 hostport), drop (i + 1) hostport))
                 else if hostport ! (e + 1) = CHR '':'' then Inl tooManyColons
                 else Inl missingPort)
          else
            (let host = take i hostport in
             if IndexByte host CHR '':'' \<noteq> None then Inl tooManyColons
             else if IndexByte hostport CHR ''['' \<noteq> None then Inl unexpectedLBracket
             else if IndexByte hostport CHR '']'' \<noteq> None then Inl unexpectedRBracket
             else Inr (host, drop (i + 1) hostport)))"

section \<open>net/http: the request\<close>

text \<open>
  \<^verbatim>\<open>http.Header\<close> is a Go map from header name to the list of its values. Ranging
  over a Go map visits its entries in an order the runtime picks; the association list
  is the map in the order this run visits it.
\<close>

type_synonym Header = "(string \<times> string list) list"

record Request =
  Header :: Header
  Host :: string
  RemoteAddr :: string
  URLPath :: string

text \<open>\<^verbatim>\<open>Header.Get\<close>: the first value under the canonical form of the key, or the empty string.\<close>

definition Header_Get :: "Header \<Rightarrow> string \<Rightarrow> string" where
  "Header_Get h key =
     (case map_of h (CanonicalMIMEHeaderKey key) of
        None \<Rightarrow> []
      | Some [] \<Rightarrow> []
      | Some (v # vs) \<Rightarrow> v)"

section \<open>grpc: metadata and status\<close>

text \<open>
  \<^verbatim>\<open>metadata.Pairs\<close> takes the keys and values in turn, \<^verbatim>\<open>k1, v1, k2, v2, ...\<close>.
  The gateway only ever appends a key together with its value, so the slice is kept as
  a list of pairs.
\<close>

fun pairsLoop :: "(string \<times> string) list \<Rightarrow> MD \<Rightarrow> MD" where
  "pairsLoop [] md = md"
| "pairsLoop ((k, v) # kv) md =
     (let key = ToLower k
      in pairsLoop kv (md(key \<mapsto> (case md key of None \<Rightarrow> [] | Some vs \<Rightarrow> vs) @ [v])))"

definition Pairs :: "(string \<times> string) list \<Rightarrow> MD" where
  "Pairs kv = pairsLoop kv Map.empty"

text \<open>\<^verbatim>\<open>metadata.Join\<close>: every key of every bag, its values appended in the order of the bags.\<close>

definition joinOne :: "MD \<Rightarrow> MD \<Rightarrow> MD" where
  "joinOne out md =
     (\<lambda>k. case md k of
             None \<Rightarrow> out k
           | Some v \<Rightarrow> Some ((case out k of None \<Rightarrow> [] | Some w \<Rightarrow> w) @ v))"

definition Join :: "MD list \<Rightarrow> MD" where
  "Join mds = foldl joinOne Map.empty mds"

definition NewOutgoingContext :: "Context \<Rightarrow> MD \<Rightarrow> Context" where
  "NewOutgoingContext ctx md = WithValue ctx mdOutgoingKey (MDValue md)"

definition NewIncomingContext :: "Context \<Rightarrow> MD \<Rightarrow> Context" where
  "NewIncomingContext ctx md = WithValue ctx mdIncomingKey (MDValue md)"

definition FromOutgoingContext :: "Context \<Rightarrow> MD \<times> bool" where
  "FromOutgoingContext ctx =
     (case Value ctx mdOutgoingKey of
        Some (MDValue md) \<Rightarrow> (md, True)
      | _ \<Rightarrow> (Map.empty, False))"

definition FromIncomingContext :: "Context \<Rightarrow> MD \<times> bool" where
  "FromIncomingContext ctx =
     (case Value ctx mdIncomingKey of
        Some (MDValue md) \<Rightarrow> (md, True)
      | _ \<Rightarrow> (Map.empty, False))"

datatype Code =
    OK | Canceled | Unknown | InvalidArgument | DeadlineExceeded | NotFound | AlreadyExists
  | PermissionDenied | ResourceExhausted | FailedPrecondition | Aborted | OutOfRange
  | Unimplemented | Internal | Unavailable | DataLoss | Unauthenticated

datatype TracerError =
    ErrUnsupportedFormat
  | ErrSpanContextNotFound
  | ErrInvalidSpanContext
  | ErrInvalidCarrier
  | ErrSpanContextCorrupted

text \<open>
  The three messages of \<^verbatim>\<open>annotateContext\<close>, each with what it formats:
  \<^verbatim>\<open>invalid HTTP request parameters: %s\<close>, \<^verbatim>\<open>invalid grpc-timeout: %s\<close> and
  \<^verbatim>\<open>invalid binary header %s: %s\<close>.
\<close>

datatype Message =
    InvalidHTTPRequestParameters TracerError
  | InvalidGrpcTimeout string
  | InvalidBinaryHeader string base64Error

datatype Status = Errorf Code Message

fun StatusCode :: "Status \<Rightarrow> Code" where
  "StatusCode (Errorf c m) = c"

section \<open>The gateway's constants, configuration and globals\<close>

definition MetadataHeaderPrefix :: string where
  "MetadataHeaderPrefix = ''Grpc-Metadata-''"

definition MetadataPrefix :: string where
  "MetadataPrefix = ''grpcgateway-''"

definition metadataGrpcTimeout :: string where
  "metadataGrpcTimeout = ''Grpc-Timeout''"

definition metadataHeaderBinarySuffix :: string where
  "metadataHeaderBinarySuffix = ''-Bin''"

definition xForwardedFor :: string where
  "xForwardedFor = ''X-Forwarded-For''"

definition xForwardedHost :: string where
  "xForwardedHost = ''X-Forwarded-Host''"

text \<open>
  The package variable \<^verbatim>\<open>DefaultContextTimeout\<close> and the tracer that
  \<^verbatim>\<open>opentracing.GlobalTracer()\<close> returns, of which only \<^verbatim>\<open>Extract\<close> on the
  request's headers can be seen in the result.
\<close>

record Globals =
  DefaultContextTimeout :: Duration
  Extract :: "Header \<Rightarrow> TracerError + SpanContext"

type_synonym HeaderMatcherFunc = "string \<Rightarrow> string \<times> bool"

record ServeMux =
  incomingHeaderMatcher :: HeaderMatcherFunc
  metadataAnnotators :: "(Context \<Rightarrow> Request \<Rightarrow> MD) list"

definition isPermanentHTTPHeader :: "string \<Rightarrow> bool" where
  "isPermanentHTTPHeader hdr =
     (hdr \<in> {''Accept'', ''Accept-Charset'', ''Accept-Language'', ''Accept-Ranges'',
             ''Authorization'', ''Cache-Control'', ''Content-Type'', ''Cookie'', ''Date'',
             ''Expect'', ''From'', ''Host'', ''If-Match'', ''If-Modified-Since'',
             ''If-None-Match'', ''If-Schedule-Tag-Match'', ''If-Unmodified-Since'',
             ''Max-Forwards'', ''Origin'', ''Pragma'', ''Referer'', ''User-Agent'', ''Via'',
             ''Warning''})"

text \<open>
  Modelled from the spec: \<^verbatim>\<open>DefaultHeaderMatcher\<close>, which lives in the package's
  \<^verbatim>\<open>mux.go\<close>. Section 4.1, rule 2: a header that begins with the custom prefix
  \<^verbatim>\<open>Grpc-Metadata-\<close> maps to its suffix in lower case; a header of the permanent
  list maps to the gateway prefix and its name in lower case; any other header is
  dropped.
\<close>

definition DefaultHeaderMatcher :: HeaderMatcherFunc where
  "DefaultHeaderMatcher key =
     (if HasPrefix key MetadataHeaderPrefix
        then (ToLower (drop (length MetadataHeaderPrefix) key), True)
      else if isPermanentHTTPHeader key then (MetadataPrefix @ ToLower key, True)
      else ([], False))"

text \<open>
  Modelled from the spec: \<^verbatim>\<open>NewServeMux\<close> and its options, of \<^verbatim>\<open>mux.go\<close>.
  Sections 4.6 and 6: the configuration is a header matcher, the default one unless a
  caller replaces it, and the annotators in the order they were registered.
\<close>

type_synonym ServeMuxOption = "ServeMux \<Rightarrow> ServeMux"

definition WithMetadata :: "(Context \<Rightarrow> Request \<Rightarrow> MD) \<Rightarrow> ServeMuxOption" where
  "WithMetadata annotator mux =
     mux\<lparr>metadataAnnotators := metadataAnnotators mux @ [annotator]\<rparr>"

definition WithIncomingHeaderMatcher :: "HeaderMatcherFunc \<Rightarrow> ServeMuxOption" where
  "WithIncomingHeaderMatcher fn mux = mux\<lparr>incomingHeaderMatcher := fn\<rparr>"

definition NewServeMux :: "ServeMuxOption list \<Rightarrow> ServeMux" where
  "NewServeMux opts =
     foldl (\<lambda>mux opt. opt mux)
       \<lparr>incomingHeaderMatcher = DefaultHeaderMatcher, metadataAnnotators = []\<rparr> opts"

section \<open>Annotating the context\<close>

definition StartSpan :: "string \<Rightarrow> SpanContext \<Rightarrow> Span" where
  "StartSpan operationName wireContext = Span operationName wireContext"

definition ContextWithSpan :: "Context \<Rightarrow> Span \<Rightarrow> Context" where
  "ContextWithSpan ctx span = WithValue ctx activeSpanKey (SpanValue span)"

text \<open>
  The inner loop of \<^verbatim>\<open>annotateContext\<close>, over the values of one header. The key
  is made canonical anew for every value, as the source does.
\<close>

fun headerValues ::
  "HeaderMatcherFunc \<Rightarrow> string \<Rightarrow> string list \<Rightarrow> (string \<times> string) list
     \<Rightarrow> Status + (string \<times> string) list" where
  "headerValues matcher key [] pairs = Inr pairs"
| "headerValues matcher key (val # vals) pairs =
     (let key = CanonicalMIMEHeaderKey key;
          pairs = (if key = ''Authorization'' then pairs @ [(''authorization'', val)] else pairs)
      in case matcher key of
           (h, ok) \<Rightarrow>
             if ok then
               if HasSuffix key metadataHeaderBinarySuffix then
                 (case decodeBinHeader val of
                    Inl err \<Rightarrow> Inl (Errorf InvalidArgument (InvalidBinaryHeader key err))
                  | Inr b \<Rightarrow> headerValues matcher key vals (pairs @ [(h, b)]))
               else headerValues matcher key vals (pairs @ [(h, val)])
             else headerValues matcher key vals pairs)"

text \<open>The outer loop, over the entries of the header map.\<close>

fun headerLoop ::
  "HeaderMatcherFunc \<Rightarrow> Header \<Rightarrow> (string \<times> string) list
     \<Rightarrow> Status + (string \<times> string) list" where
  "headerLoop matcher [] pairs = Inr pairs"
| "headerLoop matcher ((key, vals) # hdr) pairs =
     (case headerValues matcher key vals pairs of
        Inl err \<Rightarrow> Inl err
      | Inr pairs' \<Rightarrow> headerLoop matcher hdr pairs')"

text \<open>Lines 135 to 139: the forwarded host.\<close>

definition forwardedHost :: "Request \<Rightarrow> (string \<times> string) list \<Rightarrow> (string \<times> string) list" where
  "forwardedHost req pairs =
     (let host = Header_Get (Header req) xForwardedHost in
      if host \<noteq> [] then pairs @ [(ToLower xForwardedHost, host)]
      else if Host req \<noteq> [] then pairs @ [(ToLower xForwardedHost, Host req)]
      else pairs)"

text \<open>
  Lines 141 to 151: the forwarded chain. An address that does not split is logged and
  nothing is appended.
\<close>

definition forwardedFor :: "Request \<Rightarrow> (string \<times> string) list \<Rightarrow> (string \<times> string) list" where
  "forwardedFor req pairs =
     (let addr = RemoteAddr req in
      if addr \<noteq> [] then
        (case SplitHostPort addr of
           Inr (remoteIP, port) \<Rightarrow>
             (let fwd = Header_Get (Header req) xForwardedFor in
              if fwd = [] then pairs @ [(ToLower xForwardedFor, remoteIP)]
              else pairs @ [(ToLower xForwardedFor, fwd @ '', '' @ remoteIP)])
         | Inl err \<Rightarrow> pairs)
      else pairs)"

text \<open>Lines 160 to 162: the annotators, each joined to the bag so far.\<close>

fun annotatorsLoop :: "(Context \<Rightarrow> Request \<Rightarrow> MD) list \<Rightarrow> Context \<Rightarrow> Request \<Rightarrow> MD \<Rightarrow> MD" where
  "annotatorsLoop [] ctx req md = md"
| "annotatorsLoop (mda # mdas) ctx req md = annotatorsLoop mdas ctx req (Join [md, mda ctx req])"

text \<open>
  \<^verbatim>\<open>annotateContext\<close> returns a context, a bag and an error, each of which may be
  \<^verbatim>\<open>nil\<close>. The clock's reading at the call of \<^verbatim>\<open>context.WithTimeout\<close> is \<open>now\<close>.
  The span is finished when the function returns, which the result does not show.
\<close>

definition annotateContext ::
  "Globals \<Rightarrow> Time \<Rightarrow> Context \<Rightarrow> ServeMux \<Rightarrow> Request
     \<Rightarrow> Context option \<times> MD option \<times> Status option" where
  "annotateContext g now ctx mux req =
     (case Extract g (Header req) of
        Inl err \<Rightarrow> (None, None, Some (Errorf InvalidArgument (InvalidHTTPRequestParameters err)))
      | Inr wireContext \<Rightarrow>
          let serverSpan = StartSpan (URLPath req) wireContext;
              ctx = ContextWithSpan ctx serverSpan;
              tm = Header_Get (Header req) metadataGrpcTimeout
          in case (if tm \<noteq> [] then timeoutDecode tm else Inr (DefaultContextTimeout g)) of
               Inl err \<Rightarrow> (None, None, Some (Errorf InvalidArgument (InvalidGrpcTimeout tm)))
             | Inr timeout \<Rightarrow>
                 (case headerLoop (incomingHeaderMatcher mux) (Header req) [] of
                    Inl st \<Rightarrow> (None, None, Some st)
                  | Inr pairs \<Rightarrow>
                      let pairs = forwardedHost req pairs;
                          pairs = forwardedFor req pairs;
                          ctx = (if timeout \<noteq> 0 then WithTimeout now ctx timeout else ctx)
                      in if length pairs = 0 then (Some ctx, None, None)
                         else (Some ctx,
                               Some (annotatorsLoop (metadataAnnotators mux) ctx req (Pairs pairs)),
                               None)))"

definition AnnotateContext ::
  "Globals \<Rightarrow> Time \<Rightarrow> Context \<Rightarrow> ServeMux \<Rightarrow> Request \<Rightarrow> Context option \<times> Status option" where
  "AnnotateContext g now ctx mux req =
     (case annotateContext g now ctx mux req of
        (ctx', md, err) \<Rightarrow>
          if err \<noteq> None then (None, err)
          else case md of
                 None \<Rightarrow> (ctx', None)
               | Some m \<Rightarrow> (map_option (\<lambda>c. NewOutgoingContext c m) ctx', None))"

definition AnnotateIncomingContext ::
  "Globals \<Rightarrow> Time \<Rightarrow> Context \<Rightarrow> ServeMux \<Rightarrow> Request \<Rightarrow> Context option \<times> Status option" where
  "AnnotateIncomingContext g now ctx mux req =
     (case annotateContext g now ctx mux req of
        (ctx', md, err) \<Rightarrow>
          if err \<noteq> None then (None, err)
          else case md of
                 None \<Rightarrow> (ctx', None)
               | Some m \<Rightarrow> (map_option (\<lambda>c. NewIncomingContext c m) ctx', None))"

section \<open>The decoder's contract in the specification's words\<close>

text \<open>
  Section 4.2 of the specification: the prefix is a signed decimal integer of 64 bits, that
  is an optional sign and at least one decimal digit, with a value from \<open>- 2\<^sup>6\<^sup>3\<close> to
  \<open>2\<^sup>6\<^sup>3 - 1\<close>; the last character is one of six units, here in nanoseconds.
\<close>

definition digitsValue :: "string \<Rightarrow> nat \<Rightarrow> nat" where
  "digitsValue ds n = foldl (\<lambda>n c. n * 10 + (byte c - 48)) n ds"

definition int64Literal :: "string \<Rightarrow> int option" where
  "int64Literal s =
     (let neg = (s \<noteq> [] \<and> hd s = CHR ''-'');
          ds = (if s \<noteq> [] \<and> (hd s = CHR ''+'' \<or> hd s = CHR ''-'') then tl s else s);
          v = (if neg then - int (digitsValue ds 0) else int (digitsValue ds 0))
      in if ds \<noteq> [] \<and> list_all isDigit ds \<and> - (2 ^ 63) \<le> v \<and> v < 2 ^ 63 then Some v else None)"

definition unitNanoseconds :: "char \<Rightarrow> int option" where
  "unitNanoseconds u =
     (if u = CHR ''H'' then Some 3600000000000
      else if u = CHR ''M'' then Some 60000000000
      else if u = CHR ''S'' then Some 1000000000
      else if u = CHR ''m'' then Some 1000000
      else if u = CHR ''u'' then Some 1000
      else if u = CHR ''n'' then Some 1
      else None)"

section \<open>Properties\<close>

lemma Value_serverMetadata_attached:
  "Value c serverMetadataKey = Some (ServerMetadataValue m) \<Longrightarrow> attachedServerMetadata c"
  by (induction c) (auto split: if_splits)

text \<open>
  C10. Reading the server metadata back from the context it was just attached to gives
  that metadata and \<^verbatim>\<open>ok = true\<close>, whatever the context held before; a context no
  node of which was made by \<^verbatim>\<open>NewServerMetadataContext\<close> gives \<^verbatim>\<open>ok = false\<close>.
\<close>

theorem ServerMetadata_roundtrip:
  "ServerMetadataFromContext (NewServerMetadataContext ctx md) = (md, True) \<and>
   (\<not> attachedServerMetadata ctx' \<longrightarrow> snd (ServerMetadataFromContext ctx') = False)"
proof
  show "ServerMetadataFromContext (NewServerMetadataContext ctx md) = (md, True)"
    by (simp add: ServerMetadataFromContext_def NewServerMetadataContext_def WithValue_def)
next
  show "\<not> attachedServerMetadata ctx' \<longrightarrow> snd (ServerMetadataFromContext ctx') = False"
    by (auto simp: ServerMetadataFromContext_def
             split: option.splits ctxValue.splits dest: Value_serverMetadata_attached)
qed

theorem ServerMetadata_roundtrip_witness:
  "ServerMetadataFromContext
     (NewServerMetadataContext (timerCtx Background 5) zeroServerMetadata)
     = (zeroServerMetadata, True) \<and>
   \<not> attachedServerMetadata (timerCtx Background 5) \<and>
   snd (ServerMetadataFromContext (timerCtx Background 5)) = False"
  using ServerMetadata_roundtrip [of "timerCtx Background 5" zeroServerMetadata "timerCtx Background 5"]
  by simp

lemma digitsValue_ge: "n \<le> digitsValue ds n"
  unfolding digitsValue_def
proof (induction ds arbitrary: n)
  case Nil show ?case by simp
next
  case (Cons c cs)
  have "n \<le> n * 10 + (byte c - 48)" by simp
  also have "\<dots> \<le> foldl (\<lambda>n c. n * 10 + (byte c - 48)) (n * 10 + (byte c - 48)) cs"
    by (rule Cons.IH)
  finally show ?case by simp
qed

lemma parseUintLoop_Inr:
  "parseUintLoop cs n = Inr m \<longleftrightarrow>
     list_all isDigit cs \<and> m = digitsValue cs n \<and> (cs = [] \<or> m \<le> 2 ^ 64 - 1)"
proof (induction cs arbitrary: n)
  case Nil show ?case by (auto simp: digitsValue_def)
next
  case (Cons c cs)
  let ?n1 = "n * 10 + (byte c - 48)"
  have step: "digitsValue (c # cs) n = digitsValue cs ?n1" by (simp add: digitsValue_def)
  have ge: "?n1 \<le> digitsValue cs ?n1" by (rule digitsValue_ge)
  show ?case
  proof (cases "isDigit c")
    case False then show ?thesis by simp
  next
    case True
    show ?thesis
    proof (cases "n \<ge> (2 ^ 64 - 1) div 10 + 1")
      case big: True
      then have "?n1 > 2 ^ 64 - 1" by simp
      with ge have "digitsValue cs ?n1 > 2 ^ 64 - 1" by linarith
      with True big show ?thesis by (auto simp: step)
    next
      case small: False
      show ?thesis
      proof (cases "?n1 > 2 ^ 64 - 1")
        case over: True
        with ge have "digitsValue cs ?n1 > 2 ^ 64 - 1" by linarith
        with True small over show ?thesis by (auto simp: step)
      next
        case ok: False
        have "parseUintLoop (c # cs) n = parseUintLoop cs ?n1"
          using True small ok by simp
        moreover have "cs = [] \<Longrightarrow> digitsValue cs ?n1 \<le> 2 ^ 64 - 1"
          using ok by (simp add: digitsValue_def)
        ultimately show ?thesis using True Cons.IH [of ?n1] by (auto simp: step)
      qed
    qed
  qed
qed

lemma ParseUint_Inr:
  "ParseUint s = Inr m \<longleftrightarrow> s \<noteq> [] \<and> list_all isDigit s \<and> m = digitsValue s 0 \<and> m \<le> 2 ^ 64 - 1"
  by (auto simp: ParseUint_def parseUintLoop_Inr)

lemma ParseInt_Inr:
  "ParseInt s = Inr w \<longleftrightarrow> (\<exists>v. int64Literal s = Some v \<and> w = word_of_int v)"
proof (cases "s = []")
  case True then show ?thesis by (simp add: ParseInt_def int64Literal_def)
next
  case False
  define ds where "ds = (if hd s = CHR ''+'' \<or> hd s = CHR ''-'' then tl s else s)"
  show ?thesis
  proof (cases "ParseUint ds")
    case (Inl e)
    then have "\<not> (ds \<noteq> [] \<and> list_all isDigit ds \<and> digitsValue ds 0 \<le> 2 ^ 64 - 1)"
      using ParseUint_Inr [of ds "digitsValue ds 0"] by auto
    then have "int64Literal s = None"
      using False by (auto simp: int64Literal_def ds_def Let_def)
    moreover have "isl (ParseInt s)"
      using False Inl by (cases e) (auto simp: ParseInt_def ds_def Let_def)
    ultimately show ?thesis by (cases "ParseInt s") auto
  next
    case (Inr un)
    then have un: "ds \<noteq> []" "list_all isDigit ds" "un = digitsValue ds 0"
      using ParseUint_Inr [of ds un] by auto
    show ?thesis
      using False Inr un
      by (auto simp: ParseInt_def int64Literal_def Let_def ds_def [symmetric])
  qed
qed

lemma ParseInt_isl: "isl (ParseInt s) \<longleftrightarrow> int64Literal s = None"
proof (cases "ParseInt s")
  case (Inl e)
  have "int64Literal s = None"
  proof (cases "int64Literal s")
    case (Some v)
    then have "ParseInt s = Inr (word_of_int v)" by (simp add: ParseInt_Inr)
    with Inl show ?thesis by simp
  qed simp
  with Inl show ?thesis by simp
next
  case (Inr w)
  then show ?thesis using ParseInt_Inr [of s w] by auto
qed

lemma timeoutUnitToDuration_unitNanoseconds:
  "timeoutUnitToDuration u =
     (case unitNanoseconds u of None \<Rightarrow> (0, False) | Some d \<Rightarrow> (word_of_int d, True))"
  by (simp add: unitNanoseconds_def Hour_def Minute_def Second_def Millisecond_def
        Microsecond_def Nanosecond_def)

lemma timeoutDecode_eq:
  "timeoutDecode s =
     (if length s < 2 then Inl (TooShort s)
      else case unitNanoseconds (last s) of
             None \<Rightarrow> Inl (UnitNotRecognized s)
           | Some d \<Rightarrow>
               (case ParseInt (butlast s) of
                  Inl err \<Rightarrow> Inl (ParseError err)
                | Inr t \<Rightarrow> Inr (word_of_int d * t)))"
proof (cases "length s < 2")
  case True then show ?thesis by (simp add: timeoutDecode_def)
next
  case False
  then have ne: "s \<noteq> []" by auto
  have l: "s ! (length s - Suc 0) = last s" using ne by (simp add: last_conv_nth)
  have b: "take (length s - Suc 0) s = butlast s" by (simp add: butlast_conv_take)
  show ?thesis
    using False
    by (simp add: timeoutDecode_def Let_def l b timeoutUnitToDuration_unitNanoseconds
          split: option.splits sum.splits del: timeoutUnitToDuration.simps)
qed

text \<open>
  C2. \<^verbatim>\<open>timeoutDecode\<close> fails exactly when the string has fewer than two bytes, or
  its last byte is none of \<^verbatim>\<open>H M S m u n\<close>, or the bytes before it are not a signed
  decimal integer of 64 bits; otherwise it returns that integer times the unit, as an
  \<^verbatim>\<open>int64\<close> count of nanoseconds. \<^verbatim>\<open>17H\<close> is 17 hours and \<^verbatim>\<open>100000007n\<close> is
  100000007 nanoseconds.
\<close>

theorem timeoutDecode_spec:
  "(isl (timeoutDecode s) \<longleftrightarrow>
      length s < 2 \<or> unitNanoseconds (last s) = None \<or> int64Literal (butlast s) = None) \<and>
   (\<forall>d v. 2 \<le> length s \<and> unitNanoseconds (last s) = Some d \<and> int64Literal (butlast s) = Some v
      \<longrightarrow> timeoutDecode s = Inr (word_of_int (d * v))) \<and>
   timeoutDecode ''17H'' = Inr (17 * Hour) \<and>
   timeoutDecode ''100000007n'' = Inr (100000007 * Nanosecond)"
proof (intro conjI allI impI)
  show "isl (timeoutDecode s) \<longleftrightarrow>
      length s < 2 \<or> unitNanoseconds (last s) = None \<or> int64Literal (butlast s) = None"
    using ParseInt_isl [of "butlast s"]
    by (cases "ParseInt (butlast s)")
       (auto simp: timeoutDecode_eq split: option.splits)
next
  fix d v
  assume "2 \<le> length s \<and> unitNanoseconds (last s) = Some d \<and> int64Literal (butlast s) = Some v"
  then show "timeoutDecode s = Inr (word_of_int (d * v))"
    using ParseInt_Inr [of "butlast s" "word_of_int v"]
    by (simp add: timeoutDecode_eq)
next
  have "int64Literal ''17'' = Some 17"
    by (simp add: int64Literal_def digitsValue_def isDigit_def byte_def)
  then have "ParseInt ''17'' = Inr 17" by (simp add: ParseInt_Inr)
  then show "timeoutDecode ''17H'' = Inr (17 * Hour)"
    by (simp add: timeoutDecode_eq unitNanoseconds_def Hour_def Minute_def Second_def
          Millisecond_def Microsecond_def Nanosecond_def)
next
  have "int64Literal ''100000007'' = Some 100000007"
    by (simp add: int64Literal_def digitsValue_def isDigit_def byte_def)
  then have "ParseInt ''100000007'' = Inr 100000007" by (simp add: ParseInt_Inr)
  then show "timeoutDecode ''100000007n'' = Inr (100000007 * Nanosecond)"
    by (simp add: timeoutDecode_eq unitNanoseconds_def Nanosecond_def)
qed

theorem timeoutDecode_spec_witness:
  "\<not> isl (timeoutDecode ''23S'') \<and> isl (timeoutDecode ''S'') \<and> isl (timeoutDecode ''23s'')
   \<and> isl (timeoutDecode ''2x3S'') \<and>
   unitNanoseconds CHR ''S'' = Some 1000000000 \<and> int64Literal ''23'' = Some 23 \<and>
   timeoutDecode ''23S'' = Inr 23000000000 \<and>
   sint (23000000000 :: Duration) = 23 * 1000000000"
proof -
  have u: "unitNanoseconds CHR ''S'' = Some 1000000000" "unitNanoseconds CHR ''s'' = None"
    by (simp_all add: unitNanoseconds_def)
  have v: "int64Literal ''23'' = Some 23" "int64Literal ''2x3'' = None"
    by (simp_all add: int64Literal_def digitsValue_def isDigit_def byte_def)
  show ?thesis
    using timeoutDecode_spec [of "''23S''"] timeoutDecode_spec [of "''S''"]
      timeoutDecode_spec [of "''23s''"] timeoutDecode_spec [of "''2x3S''"] u v
    by simp
qed

end
